theory Spec2Isabelle
  imports Main "HOL-Library.Word"
begin

section \<open>The object cache and arena bridge of python/protobuf.c\<close>

text \<open>
  The file python/protobuf.c is the glue between the host interpreter and the native
  upb library: the module state, the object cache keyed by native address, the arena
  wrapper type, the forbidden constructor and the module entry point. The functions
  of the file are embedded below over an explicit state: the part of the interpreter
  and of the native allocator that the file reads or writes.
\<close>

subsection \<open>Values\<close>

text \<open>
  Every value the file handles is pointer sized: \<open>const void *key\<close>, \<open>PyObject *\<close>,
  \<open>upb_arena *\<close>, the \<open>uintptr_t\<close> table key and the \<open>uint64_t\<close> payload of a
  \<open>upb_value\<close>. The casts between them keep the bits. Pointers are 64 bits wide.
\<close>

type_synonym ptr = "64 word"

abbreviation NULL :: ptr where
  "NULL \<equiv> 0"

definition upb_value_ptr :: "ptr \<Rightarrow> ptr" where
  \<comment> \<open>Modelled from the spec: \<open>upb_value_ptr\<close> (upb/table.h is not among the files
      embedded here); the value of an entry is "a non-owning reference to the wrapper".\<close>
  "upb_value_ptr p = p"

definition upb_value_getptr :: "ptr \<Rightarrow> ptr" where
  \<comment> \<open>Modelled from the spec: \<open>upb_value_getptr\<close> (upb/table.h); the reference that
      the entry holds.\<close>
  "upb_value_getptr v = v"

text \<open>
  A failed \<open>assert\<close> aborts the process. Each assertion that the embedded functions can
  reach is one constructor, so that an abort is a value of the model and not a missing
  case. Assertions are taken as compiled in.
\<close>

datatype fatal =
    Assert_state          \<comment> \<open>\<open>assert(state)\<close> in \<open>PyUpb_ModuleState_GetFromModule\<close>\<close>
  | Assert_getptr_val     \<comment> \<open>\<open>assert(upb_value_getptr(val))\<close> in \<open>PyUpb_ObjCache_Delete\<close>\<close>
  | Assert_key_absent     \<comment> \<open>the precondition of the table's insert\<close>
  | Assert_name           \<comment> \<open>\<open>assert(name)\<close> in \<open>PyUpb_GetClassName\<close>\<close>
  | Bad_object            \<comment> \<open>a member read through a pointer to no object of that type\<close>

datatype exc = PyExc_RuntimeError | PyExc_AttributeError

subsection \<open>The integer table\<close>

text \<open>
  The table is a collection of entries, one address key and one value each. It is a
  list of pairs here, so that two entries under one key are representable and their
  absence is a property to prove, not a consequence of the type.
\<close>

type_synonym upb_inttable = "(ptr \<times> ptr) list"

definition upb_inttable_init :: "ptr \<Rightarrow> upb_inttable" where
  \<comment> \<open>Modelled from the spec: \<open>upb_inttable_init\<close> (upb/table.c is not among the
      files embedded here); "initializes the empty cache table over that arena".\<close>
  "upb_inttable_init arena = []"

definition upb_inttable_lookup :: "upb_inttable \<Rightarrow> ptr \<Rightarrow> ptr option" where
  \<comment> \<open>Modelled from the spec: \<open>upb_inttable_lookup\<close> (upb/table.c); the entry stored
      under the key, or not found. \<open>Some v\<close> stands for the result \<open>true\<close> with \<open>v\<close>
      written through the out parameter, \<open>None\<close> for \<open>false\<close> with nothing written.\<close>
  "upb_inttable_lookup t key = map_of t key"

definition upb_inttable_insert ::
  "upb_inttable \<Rightarrow> ptr \<Rightarrow> ptr \<Rightarrow> ptr \<Rightarrow> fatal + upb_inttable" where
  \<comment> \<open>Modelled from the spec: \<open>upb_inttable_insert\<close> (upb/table.c); "inserts the mapping
      key to wrapper. Precondition: no live entry currently exists for key", whose
      violation "must halt the operation rather than attempt recovery".\<close>
  "upb_inttable_insert t key val arena =
     (if upb_inttable_lookup t key \<noteq> None then Inl Assert_key_absent
      else Inr ((key, val) # t))"

fun upb_inttable_remove :: "upb_inttable \<Rightarrow> ptr \<Rightarrow> upb_inttable \<times> ptr option" where
  \<comment> \<open>Modelled from the spec: \<open>upb_inttable_remove\<close> (upb/table.c); "deletes the mapping
      for key". The entry found is unlinked and its value handed back (\<open>Some v\<close>: the
      result \<open>true\<close>, with \<open>v\<close> written through the out parameter); on a miss the table
      is left alone and nothing is written (\<open>None\<close>).\<close>
  "upb_inttable_remove [] key = ([], None)"
| "upb_inttable_remove ((k, v) # es) key =
     (if k = key then (es, Some v)
      else (case upb_inttable_remove es key of (es', r) \<Rightarrow> ((k, v) # es', r)))"

subsection \<open>The state\<close>

text \<open>
  \<open>PyUpb_ModuleState\<close> is declared in protobuf.h; the fields below are those that
  protobuf.c reads or writes. The fields that the other files of the module keep in it
  are left out.
\<close>

record PyUpb_ModuleState =
  obj_cache :: upb_inttable
  obj_cache_arena :: ptr
  arena_type :: ptr

text \<open>
  The part of the interpreter and of the native allocator that the file touches, one
  component per field or table, each a function of the address:
  \<^item> \<open>modules_by_index\<close>: the module that \<open>PyState_AddModule\<close> attached to the interpreter
    for \<open>module_def\<close>, which \<open>PyState_FindModule\<close> returns;
  \<^item> \<open>md_state\<close>: the live module objects created from \<open>module_def\<close>, with their
    state block;
  \<^item> \<open>ob_refcnt\<close>: the reference count of the object at an address;
  \<^item> \<open>arena_objs\<close>: the live \<open>PyUpb_Arena\<close> objects, with their \<open>arena\<close> member;
  \<^item> \<open>upb_arenas\<close>: the native arenas that are allocated and not yet freed;
  \<^item> \<open>freed\<close>: the arguments of the calls of \<open>upb_arena_free\<close> so far, latest first;
  \<^item> \<open>ht_name\<close>: for a class object, the string object that its \<open>__name__\<close> is;
  \<^item> \<open>unicode\<close>: the characters of a string object;
  \<^item> \<open>err_indicator\<close>: the pending exception, its type and its message.
\<close>

record world =
  modules_by_index :: "ptr option"
  md_state :: "ptr \<rightharpoonup> PyUpb_ModuleState"
  ob_refcnt :: "ptr \<Rightarrow> int"
  arena_objs :: "ptr \<rightharpoonup> ptr"
  upb_arenas :: "ptr set"
  freed :: "ptr list"
  ht_name :: "ptr \<rightharpoonup> ptr"
  unicode :: "ptr \<Rightarrow> string"
  err_indicator :: "(exc \<times> string) option"

definition Py_INCREF :: "ptr \<Rightarrow> world \<Rightarrow> world" where
  "Py_INCREF ob w = w\<lparr>ob_refcnt := (ob_refcnt w)(ob := ob_refcnt w ob + 1)\<rparr>"

subsection \<open>ModuleState\<close>

definition PyState_FindModule :: "world \<Rightarrow> ptr option" where
  "PyState_FindModule w = modules_by_index w"

definition PyModule_GetState :: "world \<Rightarrow> ptr \<Rightarrow> PyUpb_ModuleState option" where
  "PyModule_GetState w module = md_state w module"

text \<open>
  The C functions return a pointer to the state block; the model returns the module
  that holds the block together with the block's contents, and a write through the
  pointer is \<open>set_state\<close>. The second assertion compares the module's definition with
  \<open>module_def\<close>: \<open>md_state\<close> holds the modules of that definition only.
\<close>

definition PyUpb_ModuleState_GetFromModule ::
  "world \<Rightarrow> ptr \<Rightarrow> fatal + (ptr \<times> PyUpb_ModuleState)" where
  "PyUpb_ModuleState_GetFromModule w module =
     (case PyModule_GetState w module of
        None \<Rightarrow> Inl Assert_state
      | Some state \<Rightarrow> Inr (module, state))"

definition PyUpb_ModuleState_Get :: "world \<Rightarrow> fatal + (ptr \<times> PyUpb_ModuleState)" where
  "PyUpb_ModuleState_Get w =
     (case PyState_FindModule w of
        None \<Rightarrow> Inl Assert_state
      | Some module \<Rightarrow> PyUpb_ModuleState_GetFromModule w module)"

definition set_state :: "ptr \<Rightarrow> PyUpb_ModuleState \<Rightarrow> world \<Rightarrow> world" where
  "set_state module s w = w\<lparr>md_state := (md_state w)(module \<mapsto> s)\<rparr>"

subsection \<open>ObjectCache\<close>

definition PyUpb_ObjCache_Add :: "world \<Rightarrow> ptr \<Rightarrow> ptr \<Rightarrow> fatal + world" where
  "PyUpb_ObjCache_Add w key py_obj =
     (case PyUpb_ModuleState_Get w of
        Inl e \<Rightarrow> Inl e
      | Inr (m, s) \<Rightarrow>
          (case upb_inttable_insert (obj_cache s) key (upb_value_ptr py_obj)
                  (obj_cache_arena s) of
             Inl e \<Rightarrow> Inl e
           | Inr t \<Rightarrow> Inr (set_state m (s\<lparr>obj_cache := t\<rparr>) w)))"

text \<open>
  \<open>PyUpb_ObjCache_Delete\<close> declares \<open>upb_value val\<close> without initialising it, passes
  its address to the table and drops the table's result. When the table finds no entry
  it writes nothing, and the assertion reads what the local held on entry: a value the
  C standard leaves unspecified. That value is the parameter \<open>val0\<close>.
\<close>

definition PyUpb_ObjCache_Delete :: "world \<Rightarrow> ptr \<Rightarrow> ptr \<Rightarrow> fatal + world" where
  "PyUpb_ObjCache_Delete w key val0 =
     (case PyUpb_ModuleState_Get w of
        Inl e \<Rightarrow> Inl e
      | Inr (m, s) \<Rightarrow>
          (case upb_inttable_remove (obj_cache s) key of
             (t, r) \<Rightarrow>
               (let val = (case r of Some v \<Rightarrow> v | None \<Rightarrow> val0);
                    w' = set_state m (s\<lparr>obj_cache := t\<rparr>) w
                in if upb_value_getptr val \<noteq> NULL then Inr w'
                   else Inl Assert_getptr_val)))"

definition PyUpb_ObjCache_Get :: "world \<Rightarrow> ptr \<Rightarrow> fatal + (ptr \<times> world)" where
  "PyUpb_ObjCache_Get w key =
     (case PyUpb_ModuleState_Get w of
        Inl e \<Rightarrow> Inl e
      | Inr (m, s) \<Rightarrow>
          (case upb_inttable_lookup (obj_cache s) key of
             Some val \<Rightarrow>
               (let ret = upb_value_getptr val in Inr (ret, Py_INCREF ret w))
           | None \<Rightarrow> Inr (NULL, w)))"

subsection \<open>Reference counts and destruction\<close>

definition upb_arena_new :: "ptr \<Rightarrow> world \<Rightarrow> world" where
  \<comment> \<open>Modelled from the spec: \<open>upb_arena_new\<close> (upb/upb.c is not among the files
      embedded here); "create-arena", a fresh region. The address \<open>a\<close> is the allocator's choice.\<close>
  "upb_arena_new a w = w\<lparr>upb_arenas := insert a (upb_arenas w)\<rparr>"

definition upb_arena_free :: "ptr \<Rightarrow> world \<Rightarrow> world" where
  \<comment> \<open>Modelled from the spec: \<open>upb_arena_free\<close> (upb/upb.c); "free-arena (invalidates all
      contained allocations)". The call is logged in \<open>freed\<close>.\<close>
  "upb_arena_free a w = w\<lparr>upb_arenas := upb_arenas w - {a}, freed := a # freed w\<rparr>"

definition PyUpb_Dealloc :: "ptr \<Rightarrow> world \<Rightarrow> world" where
  \<comment> \<open>Modelled from the spec: \<open>PyUpb_Dealloc\<close> (protobuf.h is not among the files
      embedded here); the wrapper's "own storage is freed".\<close>
  "PyUpb_Dealloc self w = w\<lparr>arena_objs := (arena_objs w)(self := None)\<rparr>"

definition PyUpb_ModuleDealloc :: "world \<Rightarrow> ptr \<Rightarrow> fatal + world" where
  "PyUpb_ModuleDealloc w module =
     (case PyModule_GetState w module of
        None \<Rightarrow> Inl Bad_object
      | Some s \<Rightarrow> Inr (upb_arena_free (obj_cache_arena s) w))"

definition PyUpb_Arena_Get :: "world \<Rightarrow> ptr \<Rightarrow> fatal + ptr" where
  "PyUpb_Arena_Get w arena =
     (case arena_objs w arena of None \<Rightarrow> Inl Bad_object | Some a \<Rightarrow> Inr a)"

definition PyUpb_Arena_Dealloc :: "world \<Rightarrow> ptr \<Rightarrow> fatal + world" where
  "PyUpb_Arena_Dealloc w self =
     (case PyUpb_Arena_Get w self of
        Inl e \<Rightarrow> Inl e
      | Inr a \<Rightarrow> Inr (PyUpb_Dealloc self (upb_arena_free a w)))"

text \<open>
  The host destroys an object whose reference count reaches zero through the
  deallocator of its type. For a module of \<open>module_def\<close> that is the host's module
  deallocator, which calls the definition's \<open>m_free\<close> hook, \<open>PyUpb_ModuleDealloc\<close>, and
  then releases the state block with the object; for a \<open>PyUpb_Arena\<close> it is the
  \<open>Py_tp_dealloc\<close> slot of \<open>PyUpb_Arena_Slots\<close>, \<open>PyUpb_Arena_Dealloc\<close>. The deallocator
  of any other object is no code of this file and touches none of the state kept here.
\<close>

definition module_dealloc :: "world \<Rightarrow> ptr \<Rightarrow> fatal + world" where
  "module_dealloc w m =
     (case PyUpb_ModuleDealloc w m of
        Inl e \<Rightarrow> Inl e
      | Inr w' \<Rightarrow> Inr (w'\<lparr>md_state := (md_state w')(m := None)\<rparr>))"

definition Py_Dealloc :: "ptr \<Rightarrow> world \<Rightarrow> fatal + world" where
  "Py_Dealloc ob w =
     (if ob \<in> dom (md_state w) then module_dealloc w ob
      else if ob \<in> dom (arena_objs w) then PyUpb_Arena_Dealloc w ob
      else Inr w)"

definition Py_DECREF :: "ptr \<Rightarrow> world \<Rightarrow> fatal + world" where
  "Py_DECREF ob w =
     (let w' = w\<lparr>ob_refcnt := (ob_refcnt w)(ob := ob_refcnt w ob - 1)\<rparr>
      in if ob_refcnt w' ob = 0 then Py_Dealloc ob w' else Inr w')"

definition Py_XDECREF :: "ptr \<Rightarrow> world \<Rightarrow> fatal + world" where
  "Py_XDECREF ob w = (if ob = NULL then Inr w else Py_DECREF ob w)"

subsection \<open>Arena\<close>

text \<open>
  \<open>PyType_GenericAlloc\<close> is the host's allocator of instances: the new object is
  zero filled and has one reference. \<open>PyUpb_Arena_New\<close> calls it with
  \<open>state->arena_type\<close> and casts the result to \<open>PyUpb_Arena *\<close>, so the new object is
  entered as a \<open>PyUpb_Arena\<close> whose member is \<open>NULL\<close>. The address \<open>p\<close> is the host
  allocator's choice. Neither allocator fails in the model, and the reference that an
  instance holds on its class is not counted.
\<close>

definition PyType_GenericAlloc :: "ptr \<Rightarrow> ptr \<Rightarrow> world \<Rightarrow> world" where
  "PyType_GenericAlloc type p w =
     w\<lparr>ob_refcnt := (ob_refcnt w)(p := 1), arena_objs := (arena_objs w)(p \<mapsto> NULL)\<rparr>"

definition PyUpb_Arena_New :: "world \<Rightarrow> ptr \<Rightarrow> ptr \<Rightarrow> fatal + (ptr \<times> world)" where
  "PyUpb_Arena_New w p a =
     (case PyUpb_ModuleState_Get w of
        Inl e \<Rightarrow> Inl e
      | Inr (m, state) \<Rightarrow>
          (let w1 = PyType_GenericAlloc (arena_type state) p w;
               arena = p;
               w2 = upb_arena_new a w1;
               w3 = w2\<lparr>arena_objs := (arena_objs w2)(arena \<mapsto> a)\<rparr>
           in Inr (arena, w3)))"

subsection \<open>Utilities\<close>

definition PYUPB_MODULE_NAME :: string where
  \<comment> \<open>Modelled from the spec: the macro \<open>PYUPB_MODULE_NAME\<close> (protobuf.h); the value is
      the qualified name in the comment of \<open>PyUpb_GetClassName\<close>.\<close>
  "PYUPB_MODULE_NAME = ''google.protobuf.pyext._message''"

definition PyUpb_Arena_Spec_name :: string where
  "PyUpb_Arena_Spec_name = PYUPB_MODULE_NAME @ ''.Arena''"

definition PyUpb_GetClassName :: "string \<Rightarrow> fatal + string" where
  \<comment> \<open>\<open>strrchr(spec->name, '.')\<close>, then one past the dot\<close>
  "PyUpb_GetClassName spec_name =
     (if CHR ''.'' \<in> set spec_name
      then Inr (rev (takeWhile (\<lambda>c. c \<noteq> CHR ''.'') (rev spec_name)))
      else Inl Assert_name)"

text \<open>
  \<open>PyType_FromSpec\<close> and \<open>PyModule_AddObject\<close> belong to the host. Their results are
  parameters: \<open>type\<close> is the new class, \<open>NULL\<close> when its creation failed, and \<open>rc\<close> is
  what \<open>PyModule_AddObject\<close> returns. The module's dictionary is not kept in the state.
  The two remaining utilities, \<open>AddObject\<close> and \<open>PyUpb_GetStrData\<close>, are called by no
  function of the file and are not embedded.
\<close>

definition PyUpb_AddClass :: "ptr \<Rightarrow> string \<Rightarrow> ptr \<Rightarrow> int \<Rightarrow> fatal + ptr" where
  "PyUpb_AddClass m spec_name type rc =
     (case PyUpb_GetClassName spec_name of
        Inl e \<Rightarrow> Inl e
      | Inr name \<Rightarrow> Inr (if type \<noteq> NULL \<and> rc = 0 then type else NULL))"

definition PyUpb_InitArena :: "world \<Rightarrow> ptr \<Rightarrow> ptr \<Rightarrow> int \<Rightarrow> fatal + (bool \<times> world)" where
  "PyUpb_InitArena w m type rc =
     (case PyUpb_ModuleState_GetFromModule w m of
        Inl e \<Rightarrow> Inl e
      | Inr (m', state) \<Rightarrow>
          (case PyUpb_AddClass m PyUpb_Arena_Spec_name type rc of
             Inl e \<Rightarrow> Inl e
           | Inr t \<Rightarrow> Inr (t \<noteq> NULL, set_state m' (state\<lparr>arena_type := t\<rparr>) w)))"

text \<open>
  \<open>PyObject_GetAttrString(cls, "__name__")\<close> returns a new reference to the name of a
  class, or \<open>NULL\<close> with an \<open>AttributeError\<close> pending. \<open>PyErr_Format\<close> sets the pending
  exception; its \<open>%U\<close> takes a string object and reads through it.
\<close>

definition PyObject_GetAttrString_name :: "world \<Rightarrow> ptr \<Rightarrow> ptr \<times> world" where
  "PyObject_GetAttrString_name w cls =
     (case ht_name w cls of
        Some n \<Rightarrow> (n, Py_INCREF n w)
      | None \<Rightarrow> (NULL, w\<lparr>err_indicator := Some (PyExc_AttributeError, ''__name__'')\<rparr>))"

fun subst_U :: "string \<Rightarrow> string \<Rightarrow> string" where
  "subst_U (c # d # cs) u =
     (if c = CHR ''%'' \<and> d = CHR ''U'' then u @ subst_U cs u else c # subst_U (d # cs) u)"
| "subst_U cs u = cs"

definition PyErr_Format :: "world \<Rightarrow> exc \<Rightarrow> string \<Rightarrow> ptr \<Rightarrow> fatal + world" where
  "PyErr_Format w e format arg =
     (if arg = NULL then Inl Bad_object
      else Inr (w\<lparr>err_indicator := Some (e, subst_U format (unicode w arg))\<rparr>))"

definition PyUpb_Forbidden_New :: "world \<Rightarrow> ptr \<Rightarrow> ptr \<Rightarrow> ptr \<Rightarrow> fatal + (ptr \<times> world)" where
  "PyUpb_Forbidden_New w cls args kwds =
     (case PyObject_GetAttrString_name w cls of
        (name, w1) \<Rightarrow>
          (case PyErr_Format w1 PyExc_RuntimeError
                  ''Objects of type %U may not be created directly.'' name of
             Inl e \<Rightarrow> Inl e
           | Inr w2 \<Rightarrow>
               (case Py_XDECREF name w2 of
                  Inl e \<Rightarrow> Inl e
                | Inr w3 \<Rightarrow> Inr (NULL, w3))))"

subsection \<open>Module entry point\<close>

text \<open>
  \<open>PyModule_Create\<close> returns a new module, with one reference and a zero filled state
  block of \<open>sizeof(PyUpb_ModuleState)\<close> bytes; \<open>m\<close> is the host allocator's choice.
  \<open>PyState_AddModule\<close> attaches the module to the interpreter: the interpreter's list
  takes a reference of its own to the module and gives up the one to the module that
  held the place before.
\<close>

definition zero_state :: PyUpb_ModuleState where
  "zero_state = \<lparr>obj_cache = [], obj_cache_arena = NULL, arena_type = NULL\<rparr>"

definition PyModule_Create :: "ptr \<Rightarrow> world \<Rightarrow> world" where
  "PyModule_Create m w =
     w\<lparr>md_state := (md_state w)(m \<mapsto> zero_state), ob_refcnt := (ob_refcnt w)(m := 1)\<rparr>"

definition PyState_AddModule :: "ptr \<Rightarrow> world \<Rightarrow> fatal + world" where
  "PyState_AddModule m w =
     (let old = modules_by_index w;
          w' = (Py_INCREF m w)\<lparr>modules_by_index := Some m\<rparr>
      in case old of None \<Rightarrow> Inr w' | Some ob \<Rightarrow> Py_DECREF ob w')"

text \<open>
  The registration functions of the other files, \<open>PyUpb_InitDescriptorContainers\<close>,
  \<open>PyUpb_InitDescriptorPool\<close> and \<open>PyUpb_InitDescriptor\<close>, are taken by their results
  \<open>c1\<close>, \<open>c2\<close> and \<open>c3\<close>. The \<open>||\<close> chain stops at the first failure, so
  \<open>PyUpb_InitArena\<close> runs only after three successes. The result is the module, or
  \<open>NULL\<close>. The last statement before the return enters \<open>_IS_UPB\<close> in the module's
  dictionary, which is not kept in the state.
\<close>

definition PyInit__message ::
  "world \<Rightarrow> ptr \<Rightarrow> ptr \<Rightarrow> bool \<Rightarrow> bool \<Rightarrow> bool \<Rightarrow> ptr \<Rightarrow> int \<Rightarrow> fatal + (ptr \<times> world)" where
  "PyInit__message w m a c1 c2 c3 type rc =
     (case PyState_AddModule m (PyModule_Create m w) of
        Inl e \<Rightarrow> Inl e
      | Inr w1 \<Rightarrow>
          (case PyUpb_ModuleState_Get w1 of
             Inl e \<Rightarrow> Inl e
           | Inr (ms, state) \<Rightarrow>
               (let w2 = upb_arena_new a w1;
                    state1 = state\<lparr>obj_cache_arena := a\<rparr>;
                    state2 = state1\<lparr>obj_cache := upb_inttable_init (obj_cache_arena state1)\<rparr>;
                    w3 = set_state ms state2 w2
                in if \<not> c1 \<or> \<not> c2 \<or> \<not> c3
                   then (case Py_DECREF m w3 of
                           Inl e \<Rightarrow> Inl e
                         | Inr w4 \<Rightarrow> Inr (NULL, w4))
                   else (case PyUpb_InitArena w3 m type rc of
                           Inl e \<Rightarrow> Inl e
                         | Inr (ok, w4) \<Rightarrow>
                             if \<not> ok
                             then (case Py_DECREF m w4 of
                                     Inl e \<Rightarrow> Inl e
                                   | Inr w5 \<Rightarrow> Inr (NULL, w5))
                             else Inr (m, w4)))))"

subsection \<open>Runs of cache operations\<close>

text \<open>
  The three operations of the cache as one type, so that a sequence of calls is a list.
  \<open>Remove key val0\<close> is \<open>PyUpb_ObjCache_Delete\<close>, with the unspecified content
  \<open>val0\<close> of its local. A run stops at the first abort. \<open>cache_of\<close> is the table of
  the module that is attached to the interpreter, if there is one.
\<close>

datatype cache_op = Add ptr ptr | Remove ptr ptr | Get ptr

fun cache_exec :: "world \<Rightarrow> cache_op \<Rightarrow> fatal + world" where
  "cache_exec w (Add key py_obj) = PyUpb_ObjCache_Add w key py_obj"
| "cache_exec w (Remove key val0) = PyUpb_ObjCache_Delete w key val0"
| "cache_exec w (Get key) =
     (case PyUpb_ObjCache_Get w key of Inl e \<Rightarrow> Inl e | Inr (ret, w') \<Rightarrow> Inr w')"

fun cache_run :: "world \<Rightarrow> cache_op list \<Rightarrow> fatal + world" where
  "cache_run w [] = Inr w"
| "cache_run w (c # cs) =
     (case cache_exec w c of Inl e \<Rightarrow> Inl e | Inr w' \<Rightarrow> cache_run w' cs)"

definition cache_of :: "world \<Rightarrow> upb_inttable option" where
  "cache_of w = (case PyUpb_ModuleState_Get w of Inl e \<Rightarrow> None | Inr (m, s) \<Rightarrow> Some (obj_cache s))"

text \<open>
  The calls that respect the contract of the cache: \<open>Add\<close> for a key that has no
  entry, \<open>Remove\<close> for a key that has one, and any \<open>Get\<close>. A state of the cache is
  reachable when such calls lead to it from a freshly initialised table.
\<close>

inductive cache_step :: "world \<Rightarrow> world \<Rightarrow> bool" where
  step_Add: "cache_of w = Some t \<Longrightarrow> upb_inttable_lookup t key = None \<Longrightarrow>
     PyUpb_ObjCache_Add w key py_obj = Inr w' \<Longrightarrow> cache_step w w'"
| step_Remove: "cache_of w = Some t \<Longrightarrow> upb_inttable_lookup t key \<noteq> None \<Longrightarrow>
     PyUpb_ObjCache_Delete w key val0 = Inr w' \<Longrightarrow> cache_step w w'"
| step_Get: "PyUpb_ObjCache_Get w key = Inr (ret, w') \<Longrightarrow> cache_step w w'"

inductive cache_reach :: "world \<Rightarrow> bool" where
  reach_Init: "cache_of w = Some (upb_inttable_init a) \<Longrightarrow> cache_reach w"
| reach_Step: "cache_reach w \<Longrightarrow> cache_step w w' \<Longrightarrow> cache_reach w'"

subsection \<open>The functions of the file as calls\<close>

text \<open>
  Every function of the file that changes the state, or that the host calls through a
  slot, is one constructor. \<open>Module_Dealloc\<close> is the destruction of a module by the
  host, which runs \<open>PyUpb_ModuleDealloc\<close>; \<open>Arena_Dealloc\<close> is the \<open>Py_tp_dealloc\<close>
  slot of the arena type. The addresses that the allocators hand out and the results of
  the host's functions are arguments of the call.
\<close>

datatype call =
    Cache cache_op
  | Arena_New ptr ptr
  | Arena_Get ptr
  | Arena_Dealloc ptr
  | Module_Dealloc ptr
  | Forbidden_New ptr ptr ptr
  | Init ptr ptr bool bool bool ptr int

fun exec :: "world \<Rightarrow> call \<Rightarrow> fatal + world" where
  "exec w (Cache c) = cache_exec w c"
| "exec w (Arena_New p a) =
     (case PyUpb_Arena_New w p a of Inl e \<Rightarrow> Inl e | Inr (ret, w') \<Rightarrow> Inr w')"
| "exec w (Arena_Get ob) =
     (case PyUpb_Arena_Get w ob of Inl e \<Rightarrow> Inl e | Inr a \<Rightarrow> Inr w)"
| "exec w (Arena_Dealloc self) = PyUpb_Arena_Dealloc w self"
| "exec w (Module_Dealloc m) = module_dealloc w m"
| "exec w (Forbidden_New cls args kwds) =
     (case PyUpb_Forbidden_New w cls args kwds of Inl e \<Rightarrow> Inl e | Inr (ret, w') \<Rightarrow> Inr w')"
| "exec w (Init m a c1 c2 c3 type rc) =
     (case PyInit__message w m a c1 c2 c3 type rc of Inl e \<Rightarrow> Inl e | Inr (ret, w') \<Rightarrow> Inr w')"

text \<open>
  What the allocators guarantee: the address of a new object is the address of no live
  object, is referred to by no name slot and is not the module attached to the
  interpreter; the address of a new arena is the address of no live arena.
\<close>

definition fresh_object :: "world \<Rightarrow> ptr \<Rightarrow> bool" where
  "fresh_object w p \<longleftrightarrow>
     p \<notin> dom (md_state w) \<and> p \<notin> dom (arena_objs w) \<and> p \<notin> ran (ht_name w)
     \<and> modules_by_index w \<noteq> Some p"

fun call_ok :: "world \<Rightarrow> call \<Rightarrow> bool" where
  "call_ok w (Arena_New p a) \<longleftrightarrow> fresh_object w p \<and> a \<notin> upb_arenas w"
| "call_ok w (Init m a c1 c2 c3 type rc) \<longleftrightarrow> fresh_object w m \<and> a \<notin> upb_arenas w"
| "call_ok w c \<longleftrightarrow> True"

fun run :: "world \<Rightarrow> call list \<Rightarrow> world option" where
  "run w [] = Some w"
| "run w (c # cs) =
     (if call_ok w c
      then (case exec w c of Inl e \<Rightarrow> None | Inr w' \<Rightarrow> run w' cs)
      else None)"

text \<open>
  The arenas and their owners. \<open>module_arena\<close> is the storage arena of a live module.
  In a consistent state every \<open>PyUpb_Arena\<close> object holds a live arena that no other
  object and no module holds, the storage arenas of the modules are live and pairwise
  different, modules, arena objects and name strings are different objects, and the
  module attached to the interpreter is no arena object.
\<close>

definition module_arena :: "world \<Rightarrow> ptr \<rightharpoonup> ptr" where
  "module_arena w m = map_option obj_cache_arena (md_state w m)"

definition world_inv :: "world \<Rightarrow> bool" where
  "world_inv w \<longleftrightarrow>
     (\<forall>q a. arena_objs w q = Some a \<longrightarrow> a \<in> upb_arenas w)
   \<and> (\<forall>q q' a. arena_objs w q = Some a \<longrightarrow> arena_objs w q' = Some a \<longrightarrow> q = q')
   \<and> (\<forall>m a q. module_arena w m = Some a \<longrightarrow> arena_objs w q \<noteq> Some a)
   \<and> (\<forall>m a. module_arena w m = Some a \<longrightarrow> a \<in> upb_arenas w)
   \<and> (\<forall>m m' a. module_arena w m = Some a \<longrightarrow> module_arena w m' = Some a \<longrightarrow> m = m')
   \<and> (\<forall>m a. module_arena w m = Some a \<longrightarrow> arena_objs w m = None)
   \<and> (\<forall>cls n. ht_name w cls = Some n \<longrightarrow> module_arena w n = None \<and> arena_objs w n = None)
   \<and> (\<forall>m. modules_by_index w = Some m \<longrightarrow> arena_objs w m = None)"

subsection \<open>Example states\<close>

text \<open>
  \<open>world0\<close> is the interpreter before the module is loaded. In \<open>world1\<close> the module
  at \<open>0x7000\<close> is attached, with an empty cache over the arena \<open>0x8000\<close>; an object at
  \<open>0x2000\<close> has one reference. \<open>world2\<close> is \<open>world1\<close> after \<open>0x2000\<close> was
  registered under the key \<open>0x1000\<close>. \<open>world3\<close> has a class at \<open>0x9000\<close> named
  \<open>Arena\<close>.
\<close>

definition world0 :: world where
  "world0 = \<lparr>modules_by_index = None, md_state = Map.empty, ob_refcnt = (\<lambda>ob. 0),
     arena_objs = Map.empty, upb_arenas = {}, freed = [], ht_name = Map.empty,
     unicode = (\<lambda>ob. []), err_indicator = None\<rparr>"

definition world1 :: world where
  "world1 = world0\<lparr>modules_by_index := Some 0x7000,
     md_state := [0x7000 \<mapsto> \<lparr>obj_cache = [], obj_cache_arena = 0x8000, arena_type = 0x9000\<rparr>],
     ob_refcnt := (\<lambda>ob. 0)(0x7000 := 2, 0x2000 := 1),
     upb_arenas := {0x8000}\<rparr>"

definition world2 :: world where
  "world2 = world1\<lparr>md_state :=
     [0x7000 \<mapsto> \<lparr>obj_cache = [(0x1000, 0x2000)], obj_cache_arena = 0x8000,
        arena_type = 0x9000\<rparr>]\<rparr>"

definition world3 :: world where
  "world3 = world1\<lparr>ht_name := [0x9000 \<mapsto> 0x9100],
     unicode := (\<lambda>ob. [])(0x9100 := ''Arena''),
     ob_refcnt := (\<lambda>ob. 0)(0x7000 := 2, 0x9000 := 1, 0x9100 := 1)\<rparr>"

section \<open>Properties\<close>

subsection \<open>The integer table\<close>

lemma remove_Cons_fst:
  "fst (upb_inttable_remove ((a, b) # t) k) =
     (if a = k then t else (a, b) # fst (upb_inttable_remove t k))"
  by (simp split: prod.splits)

lemma remove_result: "snd (upb_inttable_remove t k) = map_of t k"
  by (induction t) (auto split: prod.splits)

lemma remove_keys: "set (map fst (fst (upb_inttable_remove t k))) \<subseteq> set (map fst t)"
proof (induction t)
  case Nil
  show ?case by simp
next
  case (Cons e t)
  obtain a b where e: "e = (a, b)" by (cases e)
  from Cons.IH show ?case unfolding e remove_Cons_fst by auto
qed

lemma remove_distinct:
  "distinct (map fst t) \<Longrightarrow> distinct (map fst (fst (upb_inttable_remove t k)))"
proof (induction t)
  case Nil
  then show ?case by simp
next
  case (Cons e t)
  obtain a b where e: "e = (a, b)" by (cases e)
  from Cons.prems e have "a \<notin> set (map fst t)" and d: "distinct (map fst t)" by simp_all
  with remove_keys [of t k] have "a \<notin> set (map fst (fst (upb_inttable_remove t k)))" by blast
  with Cons.IH [OF d] d show ?case unfolding e remove_Cons_fst by simp
qed

lemma remove_same:
  "distinct (map fst t) \<Longrightarrow> map_of (fst (upb_inttable_remove t k)) k = None"
proof (induction t)
  case Nil
  then show ?case by simp
next
  case (Cons e t)
  obtain a b where e: "e = (a, b)" by (cases e)
  from Cons.prems e have a: "a \<notin> fst ` set t" and d: "distinct (map fst t)" by simp_all
  from a have "a = k \<Longrightarrow> map_of t k = None" by (simp add: map_of_eq_None_iff)
  with Cons.IH [OF d] show ?case unfolding e remove_Cons_fst by simp
qed

lemma remove_other: "k' \<noteq> k \<Longrightarrow> map_of (fst (upb_inttable_remove t k)) k' = map_of t k'"
proof (induction t)
  case Nil
  then show ?case by simp
next
  case (Cons e t)
  obtain a b where e: "e = (a, b)" by (cases e)
  from Cons show ?case unfolding e remove_Cons_fst by simp
qed

lemma remove_miss: "map_of t k = None \<Longrightarrow> upb_inttable_remove t k = (t, None)"
  by (induction t) (auto split: prod.splits if_splits)

subsection \<open>The cache operations on the table of the attached module\<close>

lemmas state_defs = PyUpb_ModuleState_Get_def PyUpb_ModuleState_GetFromModule_def
  PyState_FindModule_def PyModule_GetState_def set_state_def

lemma cache_of_Add:
  "PyUpb_ObjCache_Add w key ob = Inr w' \<Longrightarrow>
   \<exists>t. cache_of w = Some t \<and> map_of t key = None \<and> cache_of w' = Some ((key, ob) # t)"
  by (auto simp: PyUpb_ObjCache_Add_def cache_of_def PyUpb_ModuleState_Get_def
      PyUpb_ModuleState_GetFromModule_def PyState_FindModule_def PyModule_GetState_def
      upb_inttable_insert_def upb_inttable_lookup_def set_state_def upb_value_ptr_def
      split: sum.splits option.splits prod.splits if_splits)

lemma cache_of_Delete:
  "PyUpb_ObjCache_Delete w key val0 = Inr w' \<Longrightarrow>
   \<exists>t. cache_of w = Some t \<and> cache_of w' = Some (fst (upb_inttable_remove t key))"
  by (auto simp: PyUpb_ObjCache_Delete_def cache_of_def PyUpb_ModuleState_Get_def
      PyUpb_ModuleState_GetFromModule_def PyState_FindModule_def PyModule_GetState_def
      set_state_def Let_def
      split: sum.splits option.splits prod.splits if_splits)

lemma cache_of_Get:
  "PyUpb_ObjCache_Get w key = Inr (r, w') \<Longrightarrow> cache_of w' = cache_of w \<and> cache_of w \<noteq> None"
  by (auto simp: PyUpb_ObjCache_Get_def cache_of_def PyUpb_ModuleState_Get_def
      PyUpb_ModuleState_GetFromModule_def PyState_FindModule_def PyModule_GetState_def
      Py_INCREF_def Let_def
      split: sum.splits option.splits prod.splits if_splits)

lemma Get_cache_of:
  "cache_of w = Some t \<Longrightarrow>
   PyUpb_ObjCache_Get w key =
     (case map_of t key of Some ob \<Rightarrow> Inr (ob, Py_INCREF ob w) | None \<Rightarrow> Inr (NULL, w))"
  by (auto simp: PyUpb_ObjCache_Get_def cache_of_def upb_inttable_lookup_def upb_value_getptr_def
      split: sum.splits option.splits prod.splits if_splits)

lemma cache_of_INCREF: "cache_of (Py_INCREF ob w) = cache_of w"
  by (simp add: cache_of_def Py_INCREF_def state_defs split: option.splits)

lemma cache_step_cases:
  assumes "cache_step w w'"
  obtains t where "cache_of w = Some t" "cache_of w' = Some t"
  | t key ob where "cache_of w = Some t" "map_of t key = None" "cache_of w' = Some ((key, ob) # t)"
  | t key where "cache_of w = Some t" "cache_of w' = Some (fst (upb_inttable_remove t key))"
  using assms
proof cases
  case (step_Add t key py_obj)
  with cache_of_Add [of w key py_obj w'] show ?thesis using that(2) by auto
next
  case (step_Remove t key val0)
  with cache_of_Delete [of w key val0 w'] show ?thesis using that(3) by auto
next
  case (step_Get key ret)
  with cache_of_Get [of w key ret w'] show ?thesis using that(1) by auto
qed

lemma cache_step_distinct:
  assumes "cache_step w w'" "cache_of w = Some t" "distinct (map fst t)"
  shows "\<exists>t'. cache_of w' = Some t' \<and> distinct (map fst t')"
  using assms(1)
proof (cases rule: cache_step_cases)
  case (1 t0)
  with assms show ?thesis by simp
next
  case (2 t0 key ob)
  with assms show ?thesis by (simp add: map_of_eq_None_iff)
next
  case (3 t0 key)
  with assms show ?thesis by (simp add: remove_distinct)
qed

lemma cache_reach_distinct:
  "cache_reach w \<Longrightarrow> \<exists>t. cache_of w = Some t \<and> distinct (map fst t)"
proof (induction rule: cache_reach.induct)
  case (reach_Init w a)
  then show ?case by (simp add: upb_inttable_init_def)
next
  case (reach_Step w w')
  then show ?case using cache_step_distinct by blast
qed

lemma cache_step_transition:
  assumes "cache_step w w'" "cache_of w = Some t" "distinct (map fst t)"
  shows "\<exists>t'. cache_of w' = Some t' \<and>
     (\<forall>key. upb_inttable_lookup t' key = upb_inttable_lookup t key
        \<or> upb_inttable_lookup t key = None \<or> upb_inttable_lookup t' key = None)"
  using assms(1)
proof (cases rule: cache_step_cases)
  case (1 t0)
  with assms show ?thesis by simp
next
  case (2 t0 key ob)
  with assms show ?thesis by (auto simp: upb_inttable_lookup_def)
next
  case (3 t0 key)
  with assms have t0: "t0 = t" by simp
  have "upb_inttable_lookup (fst (upb_inttable_remove t key)) k = upb_inttable_lookup t k
        \<or> upb_inttable_lookup t k = None
        \<or> upb_inttable_lookup (fst (upb_inttable_remove t key)) k = None" for k
  proof (cases "k = key")
    case True
    with remove_same [OF assms(3), of key] show ?thesis
      by (simp add: upb_inttable_lookup_def)
  next
    case False
    with remove_other [of k key t] show ?thesis
      by (simp add: upb_inttable_lookup_def)
  qed
  with 3 t0 show ?thesis by simp
qed

lemma cache_exec_cases:
  assumes "cache_exec w c = Inr w'"
  obtains key ret where "c = Get key" "PyUpb_ObjCache_Get w key = Inr (ret, w')"
  | key ob where "c = Add key ob" "PyUpb_ObjCache_Add w key ob = Inr w'"
  | key val0 where "c = Remove key val0" "PyUpb_ObjCache_Delete w key val0 = Inr w'"
  using assms by (cases c) (auto split: sum.splits)

lemma cache_exec_keeps_entry:
  assumes "cache_exec w c = Inr w'" and "cache_of w = Some t" and "map_of t key = Some ob"
    and "\<forall>val0. c \<noteq> Remove key val0"
  shows "\<exists>t'. cache_of w' = Some t' \<and> map_of t' key = Some ob"
  using assms(1)
proof (cases rule: cache_exec_cases)
  case (1 k ret)
  with cache_of_Get [of w k ret w'] assms show ?thesis by simp
next
  case (2 k ob')
  with cache_of_Add [of w k ob' w'] assms show ?thesis by auto
next
  case (3 k val0)
  with assms(4) have "key \<noteq> k" by auto
  with 3 cache_of_Delete [of w k val0 w'] assms(2,3) show ?thesis
    by (auto simp: remove_other)
qed

lemma cache_run_keeps_entry:
  "cache_run w cs = Inr w' \<Longrightarrow> cache_of w = Some t \<Longrightarrow> map_of t key = Some ob \<Longrightarrow>
   \<forall>val0. Remove key val0 \<notin> set cs \<Longrightarrow>
   \<exists>t'. cache_of w' = Some t' \<and> map_of t' key = Some ob"
proof (induction cs arbitrary: w t)
  case Nil
  then show ?case by simp
next
  case (Cons c cs)
  from Cons.prems(1) obtain w1 where
    c: "cache_exec w c = Inr w1" and cs: "cache_run w1 cs = Inr w'"
    by (auto split: sum.splits)
  from Cons.prems(4) have "\<forall>val0. c \<noteq> Remove key val0" by auto
  from cache_exec_keeps_entry [OF c Cons.prems(2,3) this] obtain t1 where
    "cache_of w1 = Some t1" "map_of t1 key = Some ob" by blast
  with Cons.IH [OF cs] Cons.prems(4) show ?case by auto
qed

lemma cache_exec_keeps_absent:
  assumes "cache_exec w c = Inr w'" and "cache_of w = Some t" and "map_of t key = None"
    and "\<forall>ob. c \<noteq> Add key ob"
  shows "\<exists>t'. cache_of w' = Some t' \<and> map_of t' key = None"
  using assms(1)
proof (cases rule: cache_exec_cases)
  case (1 k ret)
  with cache_of_Get [of w k ret w'] assms show ?thesis by simp
next
  case (2 k ob')
  with assms(4) have "key \<noteq> k" by auto
  with 2 cache_of_Add [of w k ob' w'] assms(2,3) show ?thesis by auto
next
  case (3 k val0)
  show ?thesis
  proof (cases "key = k")
    case True
    with 3 cache_of_Delete [of w k val0 w'] assms(2,3) show ?thesis
      by (auto simp: remove_miss)
  next
    case False
    with 3 cache_of_Delete [of w k val0 w'] assms(2,3) show ?thesis
      by (auto simp: remove_other)
  qed
qed

lemma cache_run_keeps_absent:
  "cache_run w cs = Inr w' \<Longrightarrow> cache_of w = Some t \<Longrightarrow> map_of t key = None \<Longrightarrow>
   \<forall>ob. Add key ob \<notin> set cs \<Longrightarrow>
   \<exists>t'. cache_of w' = Some t' \<and> map_of t' key = None"
proof (induction cs arbitrary: w t)
  case Nil
  then show ?case by simp
next
  case (Cons c cs)
  from Cons.prems(1) obtain w1 where
    c: "cache_exec w c = Inr w1" and cs: "cache_run w1 cs = Inr w'"
    by (auto split: sum.splits)
  from Cons.prems(4) have "\<forall>ob. c \<noteq> Add key ob" by auto
  from cache_exec_keeps_absent [OF c Cons.prems(2,3) this] obtain t1 where
    "cache_of w1 = Some t1" "map_of t1 key = None" by blast
  with Cons.IH [OF cs] Cons.prems(4) show ?case by auto
qed

subsection \<open>The example states\<close>

lemma cache_of_world1: "cache_of world1 = Some []"
  by (simp add: cache_of_def world1_def world0_def PyUpb_ModuleState_Get_def
      PyUpb_ModuleState_GetFromModule_def PyState_FindModule_def PyModule_GetState_def)

lemma cache_of_world2: "cache_of world2 = Some [(0x1000, 0x2000)]"
  by (simp add: cache_of_def world2_def world1_def world0_def state_defs)

lemma Add_world1: "PyUpb_ObjCache_Add world1 0x1000 0x2000 = Inr world2"
  by (simp add: PyUpb_ObjCache_Add_def world2_def world1_def world0_def state_defs
      upb_inttable_insert_def upb_inttable_lookup_def upb_value_ptr_def)

lemma Delete_world2: "PyUpb_ObjCache_Delete world2 0x1000 0 = Inr world1"
  by (simp add: PyUpb_ObjCache_Delete_def world2_def world1_def world0_def state_defs
      upb_value_getptr_def)

lemma cache_reach_world2: "cache_reach world2"
proof -
  have "cache_reach world1"
    by (rule reach_Init [where a = "0x8000"]) (simp add: cache_of_world1 upb_inttable_init_def)
  moreover have "cache_step world1 world2"
    by (rule step_Add [OF cache_of_world1 _ Add_world1]) (simp add: upb_inttable_lookup_def)
  ultimately show ?thesis by (rule reach_Step)
qed

lemma cache_step_world2: "cache_step world2 world1"
  by (rule step_Remove [OF cache_of_world2 _ Delete_world2]) (simp add: upb_inttable_lookup_def)

subsection \<open>Consistency under allocation and release\<close>

lemma fresh_object_alt:
  "fresh_object w p \<longleftrightarrow> module_arena w p = None \<and> arena_objs w p = None
     \<and> (\<forall>cls. ht_name w cls \<noteq> Some p) \<and> modules_by_index w \<noteq> Some p"
  by (auto simp: fresh_object_def module_arena_def ran_def domIff)

lemma inv_unchanged:
  assumes "world_inv w" and "arena_objs w' = arena_objs w" and "upb_arenas w' = upb_arenas w"
    and "module_arena w' = module_arena w" and "ht_name w' = ht_name w"
    and "modules_by_index w' = modules_by_index w"
  shows "world_inv w'"
  using assms unfolding world_inv_def by simp

lemma inv_new_arena_obj:
  assumes "world_inv w" and "fresh_object w p" and "a \<notin> upb_arenas w"
    and "arena_objs w' = (arena_objs w)(p \<mapsto> a)" and "upb_arenas w' = insert a (upb_arenas w)"
    and "module_arena w' = module_arena w" and "ht_name w' = ht_name w"
    and "modules_by_index w' = modules_by_index w"
  shows "world_inv w'"
  using assms unfolding world_inv_def fresh_object_alt
  by (auto split: if_splits)

lemma inv_free_arena_obj:
  assumes "world_inv w" and "arena_objs w q = Some a"
    and "arena_objs w' = (arena_objs w)(q := None)" and "upb_arenas w' = upb_arenas w - {a}"
    and "module_arena w' = module_arena w" and "ht_name w' = ht_name w"
    and "modules_by_index w' = modules_by_index w"
  shows "world_inv w'"
  using assms unfolding world_inv_def
  by (auto split: if_splits)

lemma inv_free_module:
  assumes "world_inv w" and "module_arena w m = Some a"
    and "arena_objs w' = arena_objs w" and "upb_arenas w' = upb_arenas w - {a}"
    and "module_arena w' = (module_arena w)(m := None)" and "ht_name w' = ht_name w"
    and "modules_by_index w' = modules_by_index w"
  shows "world_inv w'"
  using assms unfolding world_inv_def
  by (auto split: if_splits)

lemma inv_new_module:
  assumes "world_inv w" and "fresh_object w m" and "a \<notin> upb_arenas w"
    and "arena_objs w' = arena_objs w" and "upb_arenas w' = insert a (upb_arenas w)"
    and "module_arena w' = (module_arena w)(m \<mapsto> a)" and "ht_name w' = ht_name w"
    and "modules_by_index w' = Some m"
  shows "world_inv w'"
  using assms unfolding world_inv_def fresh_object_alt
  by (auto split: if_splits)

subsection \<open>What each function changes\<close>

lemma Add_effect:
  assumes "PyUpb_ObjCache_Add w key ob = Inr w'"
  shows "arena_objs w' = arena_objs w \<and> upb_arenas w' = upb_arenas w \<and> freed w' = freed w
     \<and> module_arena w' = module_arena w \<and> ht_name w' = ht_name w
     \<and> modules_by_index w' = modules_by_index w"
  using assms
  by (auto simp: PyUpb_ObjCache_Add_def state_defs module_arena_def fun_eq_iff
      split: sum.splits option.splits)

lemma Delete_effect:
  assumes "PyUpb_ObjCache_Delete w key val0 = Inr w'"
  shows "arena_objs w' = arena_objs w \<and> upb_arenas w' = upb_arenas w \<and> freed w' = freed w
     \<and> module_arena w' = module_arena w \<and> ht_name w' = ht_name w
     \<and> modules_by_index w' = modules_by_index w"
  using assms
  by (auto simp: PyUpb_ObjCache_Delete_def state_defs module_arena_def fun_eq_iff Let_def
      split: sum.splits option.splits prod.splits if_splits)

lemma Get_effect:
  assumes "PyUpb_ObjCache_Get w key = Inr (ret, w')"
  shows "arena_objs w' = arena_objs w \<and> upb_arenas w' = upb_arenas w \<and> freed w' = freed w
     \<and> module_arena w' = module_arena w \<and> ht_name w' = ht_name w
     \<and> modules_by_index w' = modules_by_index w"
  using assms
  by (auto simp: PyUpb_ObjCache_Get_def state_defs module_arena_def fun_eq_iff Let_def
      Py_INCREF_def
      split: sum.splits option.splits prod.splits if_splits)

lemma Arena_New_effect:
  assumes "PyUpb_Arena_New w p a = Inr (ret, w')"
  shows "ret = p \<and> arena_objs w' = (arena_objs w)(p \<mapsto> a)
     \<and> upb_arenas w' = insert a (upb_arenas w) \<and> freed w' = freed w
     \<and> module_arena w' = module_arena w \<and> ht_name w' = ht_name w
     \<and> modules_by_index w' = modules_by_index w"
  using assms
  by (auto simp: PyUpb_Arena_New_def PyType_GenericAlloc_def upb_arena_new_def
      module_arena_def fun_eq_iff Let_def
      split: sum.splits option.splits prod.splits if_splits)

lemma Arena_Dealloc_effect:
  assumes "PyUpb_Arena_Dealloc w self = Inr w'"
  shows "\<exists>a. arena_objs w self = Some a \<and> arena_objs w' = (arena_objs w)(self := None)
     \<and> upb_arenas w' = upb_arenas w - {a} \<and> freed w' = a # freed w
     \<and> module_arena w' = module_arena w \<and> ht_name w' = ht_name w
     \<and> modules_by_index w' = modules_by_index w"
  using assms
  by (auto simp: PyUpb_Arena_Dealloc_def PyUpb_Arena_Get_def PyUpb_Dealloc_def
      upb_arena_free_def module_arena_def fun_eq_iff
      split: sum.splits option.splits)

lemma module_dealloc_effect:
  assumes "module_dealloc w m = Inr w'"
  shows "\<exists>a. module_arena w m = Some a \<and> arena_objs w' = arena_objs w
     \<and> upb_arenas w' = upb_arenas w - {a} \<and> freed w' = a # freed w
     \<and> module_arena w' = (module_arena w)(m := None) \<and> ht_name w' = ht_name w
     \<and> modules_by_index w' = modules_by_index w \<and> ob_refcnt w' = ob_refcnt w"
  using assms
  by (auto simp: module_dealloc_def PyUpb_ModuleDealloc_def PyModule_GetState_def
      upb_arena_free_def module_arena_def fun_eq_iff
      split: sum.splits option.splits)

lemma Forbidden_New_effect:
  assumes "PyUpb_Forbidden_New w cls args kwds = Inr (ret, w')" and "world_inv w"
  shows "arena_objs w' = arena_objs w \<and> upb_arenas w' = upb_arenas w \<and> freed w' = freed w
     \<and> module_arena w' = module_arena w \<and> ht_name w' = ht_name w
     \<and> modules_by_index w' = modules_by_index w"
proof (cases "ht_name w cls")
  case None
  with assms(1) show ?thesis
    by (simp add: PyUpb_Forbidden_New_def PyObject_GetAttrString_name_def PyErr_Format_def)
next
  case (Some n)
  with assms(2) have n: "md_state w n = None" "arena_objs w n = None"
    by (auto simp: world_inv_def module_arena_def)
  with Some assms(1) show ?thesis
    by (auto simp: PyUpb_Forbidden_New_def PyObject_GetAttrString_name_def PyErr_Format_def
        Py_XDECREF_def Py_DECREF_def Py_Dealloc_def Py_INCREF_def Let_def module_arena_def
        domIff
        split: sum.splits if_splits)
qed

lemma Py_DECREF_effect:
  assumes "Py_DECREF ob w = Inr w'" and "arena_objs w ob = None"
  shows "arena_objs w' = arena_objs w \<and> ht_name w' = ht_name w
     \<and> modules_by_index w' = modules_by_index w
     \<and> ((upb_arenas w' = upb_arenas w \<and> freed w' = freed w \<and> module_arena w' = module_arena w
          \<and> md_state w' = md_state w)
        \<or> (\<exists>a. module_arena w ob = Some a \<and> upb_arenas w' = upb_arenas w - {a}
             \<and> freed w' = a # freed w \<and> module_arena w' = (module_arena w)(ob := None)
             \<and> md_state w' = (md_state w)(ob := None) \<and> ob_refcnt w ob = 1))
     \<and> (\<forall>x. x \<noteq> ob \<longrightarrow> ob_refcnt w' x = ob_refcnt w x)"
proof (cases "ob_refcnt w ob - 1 = 0")
  case False
  with assms show ?thesis
    by (auto simp: Py_DECREF_def Let_def module_arena_def)
next
  case True
  let ?w = "w\<lparr>ob_refcnt := (ob_refcnt w)(ob := ob_refcnt w ob - 1)\<rparr>"
  from True assms(1) have d: "Py_Dealloc ob ?w = Inr w'"
    by (simp add: Py_DECREF_def Let_def)
  show ?thesis
  proof (cases "ob \<in> dom (md_state w)")
    case False
    with d assms(2) show ?thesis
      by (auto simp: Py_Dealloc_def module_arena_def domIff)
  next
    case in_dom: True
    with d have "module_dealloc ?w ob = Inr w'" by (simp add: Py_Dealloc_def)
    with True show ?thesis
      by (auto simp: module_dealloc_def PyUpb_ModuleDealloc_def PyModule_GetState_def
      upb_arena_free_def module_arena_def fun_eq_iff
      split: sum.splits option.splits)
  qed
qed

lemma AddModule_Create_effect:
  assumes "PyState_AddModule m (PyModule_Create m w) = Inr w1"
    and "fresh_object w m" and "world_inv w"
  shows "arena_objs w1 = arena_objs w \<and> ht_name w1 = ht_name w
     \<and> modules_by_index w1 = Some m \<and> ob_refcnt w1 m = 2
     \<and> ((upb_arenas w1 = upb_arenas w \<and> freed w1 = freed w
          \<and> md_state w1 = (md_state w)(m \<mapsto> zero_state))
        \<or> (\<exists>ob b. modules_by_index w = Some ob \<and> module_arena w ob = Some b
             \<and> upb_arenas w1 = upb_arenas w - {b} \<and> freed w1 = b # freed w
             \<and> md_state w1 = (md_state w)(ob := None, m \<mapsto> zero_state)))"
proof (cases "modules_by_index w")
  case None
  with assms(1) show ?thesis
    by (auto simp: PyState_AddModule_def PyModule_Create_def Py_INCREF_def Let_def
        zero_state_def)
next
  case (Some ob)
  from assms(2) Some have fresh: "md_state w m = None" "arena_objs w m = None" "ob \<noteq> m"
    by (auto simp: fresh_object_def domIff)
  define wi where "wi = (Py_INCREF m (PyModule_Create m w))\<lparr>modules_by_index := Some m\<rparr>"
  have wi: "arena_objs wi = arena_objs w" "ht_name wi = ht_name w"
    "modules_by_index wi = Some m" "ob_refcnt wi m = 2" "upb_arenas wi = upb_arenas w"
    "freed wi = freed w" "md_state wi = (md_state w)(m \<mapsto> zero_state)"
    by (simp_all add: wi_def PyModule_Create_def Py_INCREF_def zero_state_def)
  from wi(7) fresh(3) have ma: "module_arena wi ob = module_arena w ob"
    by (simp add: module_arena_def)
  from Some have "modules_by_index (PyModule_Create m w) = Some ob"
    by (simp add: PyModule_Create_def)
  with assms(1) have dec: "Py_DECREF ob wi = Inr w1"
    by (simp add: PyState_AddModule_def Let_def wi_def)
  from Some assms(3) have "arena_objs w ob = None" by (simp add: world_inv_def)
  with wi(1) have "arena_objs wi ob = None" by simp
  note E = Py_DECREF_effect [OF dec this]
  from fresh(3) have "m \<noteq> ob" by simp
  with E have
    e: "arena_objs w1 = arena_objs wi" "ht_name w1 = ht_name wi"
       "modules_by_index w1 = modules_by_index wi" "ob_refcnt w1 m = ob_refcnt wi m"
    by simp_all
  from E have c: "(upb_arenas w1 = upb_arenas wi \<and> freed w1 = freed wi \<and> md_state w1 = md_state wi)
        \<or> (\<exists>b. module_arena wi ob = Some b \<and> upb_arenas w1 = upb_arenas wi - {b}
             \<and> freed w1 = b # freed wi \<and> md_state w1 = (md_state wi)(ob := None))"
    by (elim conjE disjE exE) simp_all
  from c have "(upb_arenas w1 = upb_arenas w \<and> freed w1 = freed w
          \<and> md_state w1 = (md_state w)(m \<mapsto> zero_state))
        \<or> (\<exists>b. module_arena w ob = Some b
             \<and> upb_arenas w1 = upb_arenas w - {b} \<and> freed w1 = b # freed w
             \<and> md_state w1 = (md_state w)(ob := None, m \<mapsto> zero_state))"
    unfolding wi ma using fresh(3) by (simp add: fun_upd_twist)
  with e wi Some show ?thesis by simp
qed

lemma Arena_class_name: "PyUpb_GetClassName PyUpb_Arena_Spec_name = Inr ''Arena''"
  by (simp add: PyUpb_GetClassName_def PyUpb_Arena_Spec_name_def PYUPB_MODULE_NAME_def)

lemma PyInit_after_AddModule:
  assumes "PyInit__message w m a c1 c2 c3 type rc = Inr (ret, w')"
    and "PyState_AddModule m (PyModule_Create m w) = Inr w1"
    and "modules_by_index w1 = Some m" and "md_state w1 m = Some zero_state"
    and "ob_refcnt w1 m = 2"
  shows "arena_objs w' = arena_objs w1 \<and> ht_name w' = ht_name w1
     \<and> modules_by_index w' = Some m \<and> upb_arenas w' = insert a (upb_arenas w1)
     \<and> freed w' = freed w1
     \<and> (\<exists>s. md_state w' = (md_state w1)(m \<mapsto> s) \<and> obj_cache_arena s = a)"
proof -
  have g: "PyUpb_ModuleState_Get w1 = Inr (m, zero_state)"
    using assms(3,4) by (simp add: state_defs)
  from assms(1) show ?thesis
    unfolding PyInit__message_def assms(2)
    using assms(3,4,5)
    by (auto simp: g Let_def set_state_def upb_arena_new_def Py_DECREF_def PyUpb_InitArena_def
        PyUpb_ModuleState_GetFromModule_def PyModule_GetState_def PyUpb_AddClass_def
        Arena_class_name upb_inttable_init_def split: if_splits)
qed

lemma PyInit_effect:
  assumes "PyInit__message w m a c1 c2 c3 type rc = Inr (ret, w')"
    and "fresh_object w m" and "world_inv w"
  shows "arena_objs w' = arena_objs w \<and> ht_name w' = ht_name w
     \<and> modules_by_index w' = Some m
     \<and> ((upb_arenas w' = insert a (upb_arenas w) \<and> freed w' = freed w
          \<and> module_arena w' = (module_arena w)(m \<mapsto> a))
        \<or> (\<exists>ob b. modules_by_index w = Some ob \<and> module_arena w ob = Some b
             \<and> upb_arenas w' = insert a (upb_arenas w - {b})
             \<and> freed w' = b # freed w
             \<and> module_arena w' = (module_arena w)(ob := None, m \<mapsto> a)))"
proof -
  from assms(1) obtain w1 where w1: "PyState_AddModule m (PyModule_Create m w) = Inr w1"
    by (auto simp: PyInit__message_def split: sum.splits)
  note A = AddModule_Create_effect [OF w1 assms(2,3)]
  note a1 = A [THEN conjunct1]
  note h1 = A [THEN conjunct2, THEN conjunct1]
  note m1 = A [THEN conjunct2, THEN conjunct2, THEN conjunct1]
  note r1 = A [THEN conjunct2, THEN conjunct2, THEN conjunct2, THEN conjunct1]
  note c1 = A [THEN conjunct2, THEN conjunct2, THEN conjunct2, THEN conjunct2]
  from c1 have z1: "md_state w1 m = Some zero_state"
    by (elim disjE conjE exE) simp_all
  from PyInit_after_AddModule [OF assms(1) w1 m1 z1 r1] obtain s where
    B: "arena_objs w' = arena_objs w1" "ht_name w' = ht_name w1" "modules_by_index w' = Some m"
       "upb_arenas w' = insert a (upb_arenas w1)" "freed w' = freed w1"
       "md_state w' = (md_state w1)(m \<mapsto> s)" "obj_cache_arena s = a"
    by blast
  from c1 have c: "(upb_arenas w' = insert a (upb_arenas w) \<and> freed w' = freed w
          \<and> module_arena w' = (module_arena w)(m \<mapsto> a))
        \<or> (\<exists>ob b. modules_by_index w = Some ob \<and> module_arena w ob = Some b
             \<and> upb_arenas w' = insert a (upb_arenas w - {b})
             \<and> freed w' = b # freed w
             \<and> module_arena w' = (module_arena w)(ob := None, m \<mapsto> a))"
  proof (elim disjE conjE exE)
    assume h: "upb_arenas w1 = upb_arenas w" "freed w1 = freed w"
      "md_state w1 = (md_state w)(m \<mapsto> zero_state)"
    have "module_arena w' = (module_arena w)(m \<mapsto> a)"
      by (rule ext) (simp add: module_arena_def B(6,7) h(3))
    with B(4,5) h(1,2) have "upb_arenas w' = insert a (upb_arenas w) \<and> freed w' = freed w
          \<and> module_arena w' = (module_arena w)(m \<mapsto> a)"
      by simp
    then show ?thesis ..
  next
    fix ob b
    assume h: "modules_by_index w = Some ob" "module_arena w ob = Some b"
      "upb_arenas w1 = upb_arenas w - {b}" "freed w1 = b # freed w"
      "md_state w1 = (md_state w)(ob := None, m \<mapsto> zero_state)"
    have "module_arena w' = (module_arena w)(ob := None, m \<mapsto> a)"
      by (rule ext) (simp add: module_arena_def B(6,7) h(5))
    with B(4,5) h(1,2,3,4) have "modules_by_index w = Some ob \<and> module_arena w ob = Some b
             \<and> upb_arenas w' = insert a (upb_arenas w - {b})
             \<and> freed w' = b # freed w
             \<and> module_arena w' = (module_arena w)(ob := None, m \<mapsto> a)"
      by simp
    then show ?thesis by blast
  qed
  from B(1) a1 have "arena_objs w' = arena_objs w" by simp
  moreover from B(2) h1 have "ht_name w' = ht_name w" by simp
  ultimately show ?thesis using B(3) c by (intro conjI)
qed

lemma PyInit_inv:
  assumes "PyInit__message w m a c1 c2 c3 type rc = Inr (ret, w')"
    and "fresh_object w m" and "a \<notin> upb_arenas w" and "world_inv w"
  shows "world_inv w'"
proof -
  note E = PyInit_effect [OF assms(1,2,4)]
  note e = E [THEN conjunct1] E [THEN conjunct2, THEN conjunct1]
    E [THEN conjunct2, THEN conjunct2, THEN conjunct1]
  from E [THEN conjunct2, THEN conjunct2, THEN conjunct2] consider
    (plain) "upb_arenas w' = insert a (upb_arenas w)"
       "module_arena w' = (module_arena w)(m \<mapsto> a)"
  | (replaced) ob b where "modules_by_index w = Some ob" "module_arena w ob = Some b"
       "upb_arenas w' = insert a (upb_arenas w - {b})"
       "module_arena w' = (module_arena w)(ob := None, m \<mapsto> a)"
    by blast
  then show ?thesis
  proof cases
    case plain
    with assms e show ?thesis by (intro inv_new_module [of w m a w']) simp_all
  next
    case (replaced ob b)
    define wf where "wf = w\<lparr>upb_arenas := upb_arenas w - {b}, md_state := (md_state w)(ob := None)\<rparr>"
    have wf: "arena_objs wf = arena_objs w" "upb_arenas wf = upb_arenas w - {b}"
      "module_arena wf = (module_arena w)(ob := None)" "ht_name wf = ht_name w"
      "modules_by_index wf = modules_by_index w"
      by (simp_all add: wf_def module_arena_def fun_eq_iff)
    from assms(4) replaced(2) wf have inv: "world_inv wf"
      by (intro inv_free_module [of w ob b wf]) simp_all
    from assms(2) wf have fr: "fresh_object wf m"
      by (simp add: fresh_object_alt)
    from assms(3) wf have "a \<notin> upb_arenas wf" by simp
    with inv fr show ?thesis using e replaced wf
      by (intro inv_new_module [of wf m a w']) simp_all
  qed
qed

lemma exec_inv:
  assumes "world_inv w" and "call_ok w c" and "exec w c = Inr w'"
  shows "world_inv w'"
proof (cases c)
  case (Cache op)
  with assms(3) have "cache_exec w op = Inr w'" by simp
  then show ?thesis
  proof (cases rule: cache_exec_cases)
    case (1 key ret)
    from Get_effect [OF 1(2)] assms(1) show ?thesis by (intro inv_unchanged [of w w']) simp_all
  next
    case (2 key ob)
    from Add_effect [OF 2(2)] assms(1) show ?thesis by (intro inv_unchanged [of w w']) simp_all
  next
    case (3 key val0)
    from Delete_effect [OF 3(2)] assms(1) show ?thesis by (intro inv_unchanged [of w w']) simp_all
  qed
next
  case (Arena_New p a)
  with assms(3) obtain ret where "PyUpb_Arena_New w p a = Inr (ret, w')"
    by (auto split: sum.splits)
  from Arena_New_effect [OF this] assms(1,2) Arena_New show ?thesis
    by (intro inv_new_arena_obj [of w p a w']) simp_all
next
  case (Arena_Get ob)
  with assms(1,3) show ?thesis by (auto split: sum.splits)
next
  case (Arena_Dealloc self)
  with assms(3) have "PyUpb_Arena_Dealloc w self = Inr w'" by simp
  from Arena_Dealloc_effect [OF this] obtain a where
    "arena_objs w self = Some a" "arena_objs w' = (arena_objs w)(self := None)"
    "upb_arenas w' = upb_arenas w - {a}" "module_arena w' = module_arena w"
    "ht_name w' = ht_name w" "modules_by_index w' = modules_by_index w"
    by blast
  with assms(1) show ?thesis by (intro inv_free_arena_obj [of w self a w']) simp_all
next
  case (Module_Dealloc m)
  with assms(3) have "module_dealloc w m = Inr w'" by simp
  from module_dealloc_effect [OF this] obtain a where
    "module_arena w m = Some a" "arena_objs w' = arena_objs w"
    "upb_arenas w' = upb_arenas w - {a}" "module_arena w' = (module_arena w)(m := None)"
    "ht_name w' = ht_name w" "modules_by_index w' = modules_by_index w"
    by blast
  with assms(1) show ?thesis by (intro inv_free_module [of w m a w']) simp_all
next
  case (Forbidden_New cls args kwds)
  with assms(3) obtain ret where "PyUpb_Forbidden_New w cls args kwds = Inr (ret, w')"
    by (auto split: sum.splits)
  from Forbidden_New_effect [OF this assms(1)] assms(1) show ?thesis
    by (intro inv_unchanged [of w w']) simp_all
next
  case (Init m a c1 c2 c3 type rc)
  with assms(3) obtain ret where "PyInit__message w m a c1 c2 c3 type rc = Inr (ret, w')"
    by (auto split: sum.splits)
  from PyInit_inv [OF this] assms(1,2) Init show ?thesis by simp
qed

lemma exec_keeps:
  assumes "world_inv w" and "call_ok w c" and "exec w c = Inr w'"
    and "arena_objs w p = Some a" and "c \<noteq> Arena_Dealloc p"
  shows "arena_objs w' p = Some a \<and> count_list (freed w') a = count_list (freed w) a"
proof (cases c)
  case (Cache op)
  with assms(3) have "cache_exec w op = Inr w'" by simp
  then show ?thesis
  proof (cases rule: cache_exec_cases)
    case (1 key ret)
    from Get_effect [OF 1(2)] assms(4) show ?thesis by simp
  next
    case (2 key ob)
    from Add_effect [OF 2(2)] assms(4) show ?thesis by simp
  next
    case (3 key val0)
    from Delete_effect [OF 3(2)] assms(4) show ?thesis by simp
  qed
next
  case (Arena_New p' a')
  with assms(3) obtain ret where "PyUpb_Arena_New w p' a' = Inr (ret, w')"
    by (auto split: sum.splits)
  from Arena_New_effect [OF this] assms(2,4) Arena_New show ?thesis
    by (auto simp: fresh_object_def)
next
  case (Arena_Get ob)
  with assms(3,4) show ?thesis by (auto split: sum.splits)
next
  case (Arena_Dealloc self)
  with assms(3) have "PyUpb_Arena_Dealloc w self = Inr w'" by simp
  from Arena_Dealloc_effect [OF this] obtain b where
    b: "arena_objs w self = Some b" "arena_objs w' = (arena_objs w)(self := None)"
    "freed w' = b # freed w"
    by blast
  from assms(5) Arena_Dealloc have "self \<noteq> p" by simp
  moreover from this assms(1,4) b(1) have "b \<noteq> a" by (auto simp: world_inv_def)
  ultimately show ?thesis using b assms(4) by simp
next
  case (Module_Dealloc m)
  with assms(3) have "module_dealloc w m = Inr w'" by simp
  from module_dealloc_effect [OF this] obtain b where
    b: "module_arena w m = Some b" "arena_objs w' = arena_objs w" "freed w' = b # freed w"
    by blast
  from assms(1,4) b(1) have "b \<noteq> a" by (auto simp: world_inv_def)
  with b assms(4) show ?thesis by simp
next
  case (Forbidden_New cls args kwds)
  with assms(3) obtain ret where "PyUpb_Forbidden_New w cls args kwds = Inr (ret, w')"
    by (auto split: sum.splits)
  from Forbidden_New_effect [OF this assms(1)] assms(4) show ?thesis by simp
next
  case (Init m a' c1 c2 c3 type rc)
  with assms(3) obtain ret where "PyInit__message w m a' c1 c2 c3 type rc = Inr (ret, w')"
    by (auto split: sum.splits)
  note E = PyInit_effect [OF this _ assms(1)]
  from assms(2) Init have "fresh_object w m" by simp
  note E' = E [OF this]
  note ao = E' [THEN conjunct1]
  from E' [THEN conjunct2, THEN conjunct2, THEN conjunct2] have
    f: "freed w' = freed w
       \<or> (\<exists>ob b. module_arena w ob = Some b \<and> freed w' = b # freed w)"
    by blast
  from f assms(1,4) have "count_list (freed w') a = count_list (freed w) a"
    by (auto simp: world_inv_def)
  with ao assms(4) show ?thesis by simp
qed

lemma run_keeps:
  "run w cs = Some w' \<Longrightarrow> world_inv w \<Longrightarrow> arena_objs w p = Some a \<Longrightarrow>
   Arena_Dealloc p \<notin> set cs \<Longrightarrow>
   world_inv w' \<and> arena_objs w' p = Some a \<and> count_list (freed w') a = count_list (freed w) a"
proof (induction cs arbitrary: w)
  case Nil
  then show ?case by simp
next
  case (Cons c cs)
  from Cons.prems(1) obtain w1 where
    ok: "call_ok w c" and c: "exec w c = Inr w1" and cs: "run w1 cs = Some w'"
    by (auto split: if_splits sum.splits)
  from Cons.prems(4) have ne: "c \<noteq> Arena_Dealloc p" and rest: "Arena_Dealloc p \<notin> set cs"
    by auto
  from exec_inv [OF Cons.prems(2) ok c] have inv1: "world_inv w1" .
  from exec_keeps [OF Cons.prems(2) ok c Cons.prems(3) ne] have
    k1: "arena_objs w1 p = Some a" "count_list (freed w1) a = count_list (freed w) a"
    by simp_all
  from Cons.IH [OF cs inv1 k1(1) rest] k1(2) show ?case by simp
qed

lemma world_inv_world1: "world_inv world1"
  by (simp add: world_inv_def world1_def world0_def module_arena_def)

lemma subst_U_message:
  "subst_U ''Objects of type %U may not be created directly.'' u =
     ''Objects of type '' @ u @ '' may not be created directly.''"
  by simp

section \<open>The claims\<close>

text \<open>
  Claim C1, cache identity uniqueness. In every state of the cache that is reachable by
  \<open>Add\<close> and \<open>Remove\<close> calls that satisfy their preconditions (and by lookups), the
  table holds at most one entry for every key, so that a key is related to at most one
  wrapper; and every further such call leaves the lookup of a key as it was, or takes the
  key from absent to present, or from present to absent: no entry is replaced in place.
\<close>

theorem cache_identity_unique:
  assumes "cache_reach w"
  shows "\<exists>t. cache_of w = Some t \<and> distinct (map fst t)
     \<and> (\<forall>key ob ob'. (key, ob) \<in> set t \<longrightarrow> (key, ob') \<in> set t \<longrightarrow> ob = ob')
     \<and> (\<forall>w'. cache_step w w' \<longrightarrow>
          (\<exists>t'. cache_of w' = Some t' \<and>
             (\<forall>key. upb_inttable_lookup t' key = upb_inttable_lookup t key
                \<or> upb_inttable_lookup t key = None \<or> upb_inttable_lookup t' key = None)))"
proof -
  from cache_reach_distinct [OF assms] obtain t where
    t: "cache_of w = Some t" and d: "distinct (map fst t)" by blast
  from d have "\<forall>key ob ob'. (key, ob) \<in> set t \<longrightarrow> (key, ob') \<in> set t \<longrightarrow> ob = ob'"
    by (meson eq_key_imp_eq_value)
  moreover have "\<forall>w'. cache_step w w' \<longrightarrow>
          (\<exists>t'. cache_of w' = Some t' \<and>
             (\<forall>key. upb_inttable_lookup t' key = upb_inttable_lookup t key
                \<or> upb_inttable_lookup t key = None \<or> upb_inttable_lookup t' key = None))"
    using cache_step_transition [OF _ t d] by blast
  ultimately show ?thesis using t d by blast
qed

theorem cache_identity_unique_witness:
  "cache_reach world2 \<and> cache_step world2 world1
   \<and> (\<exists>t. cache_of world2 = Some t \<and> distinct (map fst t)
        \<and> (\<exists>t'. cache_of world1 = Some t'
             \<and> (upb_inttable_lookup t' 0x1000 = upb_inttable_lookup t 0x1000
                \<or> upb_inttable_lookup t 0x1000 = None
                \<or> upb_inttable_lookup t' 0x1000 = None)))"
  using cache_identity_unique [OF cache_reach_world2] cache_reach_world2 cache_step_world2
  by blast

text \<open>
  Claim C2, the contract of \<open>PyUpb_ObjCache_Get\<close>. While the module is attached: if the
  table has an entry for the key, the call returns the wrapper of that entry and the
  state differs from the one before in the reference count of that wrapper only, which is
  one higher; if the table has no entry, the call returns \<open>NULL\<close> and the state is the
  one before, so no reference count has changed.
\<close>

theorem PyUpb_ObjCache_Get_contract:
  assumes "cache_of w = Some t"
  shows "(\<forall>ob. upb_inttable_lookup t key = Some ob \<longrightarrow>
            PyUpb_ObjCache_Get w key =
              Inr (ob, w\<lparr>ob_refcnt := (ob_refcnt w)(ob := ob_refcnt w ob + 1)\<rparr>))
       \<and> (upb_inttable_lookup t key = None \<longrightarrow> PyUpb_ObjCache_Get w key = Inr (NULL, w))"
  using assms by (simp add: Get_cache_of upb_inttable_lookup_def Py_INCREF_def)

theorem PyUpb_ObjCache_Get_contract_witness:
  "cache_of world2 = Some [(0x1000, 0x2000)]
   \<and> PyUpb_ObjCache_Get world2 0x1000 =
       Inr (0x2000, world2\<lparr>ob_refcnt := (ob_refcnt world2)(0x2000 := 2)\<rparr>)
   \<and> PyUpb_ObjCache_Get world2 0x3000 = Inr (NULL, world2)"
proof -
  have "ob_refcnt world2 0x2000 = 1" by (simp add: world2_def world1_def world0_def)
  with PyUpb_ObjCache_Get_contract [OF cache_of_world2, of "0x1000"]
    PyUpb_ObjCache_Get_contract [OF cache_of_world2, of "0x3000"] cache_of_world2
  show ?thesis by (simp add: upb_inttable_lookup_def)
qed

text \<open>
  Claim C3, \<open>Add\<close> then \<open>Get\<close>. As soon as \<open>PyUpb_ObjCache_Add\<close> has returned, a lookup
  of the key returns the wrapper that was added, and so does a lookup after any further
  run of cache operations that contains no \<open>Remove\<close> of that key.
\<close>

theorem Add_then_Get:
  assumes "PyUpb_ObjCache_Add w key ob = Inr w1"
    and "cache_run w1 cs = Inr w2"
    and "\<forall>val0. Remove key val0 \<notin> set cs"
  shows "PyUpb_ObjCache_Get w1 key = Inr (ob, Py_INCREF ob w1)
       \<and> PyUpb_ObjCache_Get w2 key = Inr (ob, Py_INCREF ob w2)"
proof -
  from cache_of_Add [OF assms(1)] obtain t where
    t: "cache_of w1 = Some ((key, ob) # t)" by blast
  have e: "map_of ((key, ob) # t) key = Some ob" by simp
  from cache_run_keeps_entry [OF assms(2) t e assms(3)] obtain t2 where
    "cache_of w2 = Some t2" "map_of t2 key = Some ob" by blast
  with t show ?thesis by (simp add: Get_cache_of)
qed

theorem Add_then_Get_witness:
  "PyUpb_ObjCache_Add world1 0x1000 0x2000 = Inr world2
   \<and> (\<exists>w2. cache_run world2 [Get 0x1000, Get 0x3000] = Inr w2
        \<and> PyUpb_ObjCache_Get w2 0x1000 = Inr (0x2000, Py_INCREF 0x2000 w2))"
proof -
  have r: "cache_run world2 [Get 0x1000, Get 0x3000] = Inr (Py_INCREF 0x2000 world2)"
    by (simp add: Get_cache_of cache_of_world2 cache_of_INCREF)
  have "\<forall>val0. Remove 0x1000 val0 \<notin> set [Get 0x1000, Get 0x3000]" by simp
  from Add_then_Get [OF Add_world1 r this] Add_world1 r show ?thesis by blast
qed

text \<open>
  Claim C4, \<open>Remove\<close> then \<open>Get\<close>. In a reachable state of the cache with an entry for
  the key, once \<open>PyUpb_ObjCache_Delete\<close> has returned, a lookup of the key returns
  \<open>NULL\<close>, and so does a lookup after any further run of cache operations that contains
  no \<open>Add\<close> of that key: the wrapper that was registered is never handed out again.
\<close>

theorem Remove_then_Get:
  assumes "cache_reach w" and "cache_of w = Some t"
    and "upb_inttable_lookup t key = Some ob"
    and "PyUpb_ObjCache_Delete w key val0 = Inr w1"
    and "cache_run w1 cs = Inr w2"
    and "\<forall>ob'. Add key ob' \<notin> set cs"
  shows "PyUpb_ObjCache_Get w1 key = Inr (NULL, w1)
       \<and> PyUpb_ObjCache_Get w2 key = Inr (NULL, w2)"
proof -
  from cache_reach_distinct [OF assms(1)] assms(2) have d: "distinct (map fst t)" by simp
  from cache_of_Delete [OF assms(4)] assms(2) have
    t1: "cache_of w1 = Some (fst (upb_inttable_remove t key))" by simp
  have e: "map_of (fst (upb_inttable_remove t key)) key = None"
    by (rule remove_same [OF d])
  from cache_run_keeps_absent [OF assms(5) t1 e assms(6)] obtain t2 where
    "cache_of w2 = Some t2" "map_of t2 key = None" by blast
  with t1 e show ?thesis by (simp add: Get_cache_of)
qed

theorem Remove_then_Get_witness:
  "cache_reach world2 \<and> upb_inttable_lookup [(0x1000, 0x2000)] 0x1000 = Some 0x2000
   \<and> PyUpb_ObjCache_Delete world2 0x1000 0 = Inr world1
   \<and> cache_run world1 [Get 0x3000] = Inr world1
   \<and> PyUpb_ObjCache_Get world1 0x1000 = Inr (NULL, world1)"
proof -
  have l: "upb_inttable_lookup [(0x1000, 0x2000)] 0x1000 = Some 0x2000"
    by (simp add: upb_inttable_lookup_def)
  have r: "cache_run world1 [Get 0x3000] = Inr world1"
    by (simp add: Get_cache_of cache_of_world1)
  have "\<forall>ob'. Add 0x1000 ob' \<notin> set [Get 0x3000]" by simp
  from Remove_then_Get [OF cache_reach_world2 cache_of_world2 l Delete_world2 r this]
    cache_reach_world2 l Delete_world2 r
  show ?thesis by simp
qed

text \<open>
  Claim C5, \<open>Remove\<close> of a missing key. The assertion of \<open>PyUpb_ObjCache_Delete\<close> tests
  the value that the table wrote, not whether the table found the key. For a key that
  has no entry the table writes nothing, and whenever the local holds anything but zero
  on entry, the call passes its assertion and returns with the state unchanged: it does
  not halt.
\<close>

theorem PyUpb_ObjCache_Delete_missing_key_returns:
  assumes "cache_of w = Some t" and "upb_inttable_lookup t key = None" and "val0 \<noteq> NULL"
  shows "PyUpb_ObjCache_Delete w key val0 = Inr w"
proof -
  from assms(1) obtain m s where
    g: "PyUpb_ModuleState_Get w = Inr (m, s)" and t: "obj_cache s = t"
    by (auto simp: cache_of_def split: sum.splits)
  from g have ms: "md_state w m = Some s"
    by (auto simp: state_defs split: option.splits)
  from assms(2) t have r: "upb_inttable_remove (obj_cache s) key = (obj_cache s, None)"
    by (simp add: remove_miss upb_inttable_lookup_def)
  from ms have "(md_state w)(m \<mapsto> s) = md_state w" by (simp add: fun_upd_idem)
  then have "set_state m (s\<lparr>obj_cache := obj_cache s\<rparr>) w = w"
    by (simp add: set_state_def)
  with g r assms(3) show ?thesis
    by (simp add: PyUpb_ObjCache_Delete_def upb_value_getptr_def)
qed

theorem PyUpb_ObjCache_Delete_missing_key_returns_witness:
  "cache_of world1 = Some [] \<and> upb_inttable_lookup [] 0x1000 = None
   \<and> PyUpb_ObjCache_Delete world1 0x1000 0xDEAD = Inr world1"
proof -
  have l: "upb_inttable_lookup [] 0x1000 = None" by (simp add: upb_inttable_lookup_def)
  have "(0xDEAD :: ptr) \<noteq> NULL" by simp
  from PyUpb_ObjCache_Delete_missing_key_returns [OF cache_of_world1 l this] cache_of_world1 l
  show ?thesis by simp
qed

text \<open>
  Claim C6, a second \<open>Add\<close>. While the table has an entry for the key,
  \<open>PyUpb_ObjCache_Add\<close> for that key aborts on the precondition of the table's insert;
  it does not return, so no state with a replaced entry exists.
\<close>

theorem PyUpb_ObjCache_Add_duplicate_fatal:
  assumes "cache_of w = Some t" and "upb_inttable_lookup t key = Some ob1"
  shows "PyUpb_ObjCache_Add w key ob2 = Inl Assert_key_absent"
  using assms
  by (auto simp: PyUpb_ObjCache_Add_def cache_of_def upb_inttable_insert_def
      split: sum.splits prod.splits)

theorem PyUpb_ObjCache_Add_duplicate_fatal_witness:
  "cache_of world2 = Some [(0x1000, 0x2000)]
   \<and> PyUpb_ObjCache_Add world2 0x1000 0x2008 = Inl Assert_key_absent"
proof -
  have "upb_inttable_lookup [(0x1000, 0x2000)] 0x1000 = Some 0x2000"
    by (simp add: upb_inttable_lookup_def)
  from PyUpb_ObjCache_Add_duplicate_fatal [OF cache_of_world2 this] cache_of_world2
  show ?thesis by simp
qed

text \<open>
  Claim C7, arena ownership. Let \<open>PyUpb_Arena_New\<close> return in a consistent state, the
  allocators having handed out a new object address and a new arena address. The result
  is the new wrapper and its arena was not live before. After any run of calls of the
  functions of the file that does not destroy that wrapper, the wrapper still holds the
  arena, the arena is live, no other \<open>PyUpb_Arena\<close> object holds it, and
  \<open>upb_arena_free\<close> has not been called on it. \<open>PyUpb_Arena_Dealloc\<close> of the wrapper
  then frees the arena with exactly one call of \<open>upb_arena_free\<close>, after which no
  object holds it.
\<close>

theorem arena_owned_and_freed_once:
  assumes "world_inv w" and "call_ok w (Arena_New p a)"
    and "PyUpb_Arena_New w p a = Inr (ret, w1)"
    and "run w1 cs = Some w2" and "Arena_Dealloc p \<notin> set cs"
  shows "ret = p \<and> a \<notin> upb_arenas w
     \<and> PyUpb_Arena_Get w2 p = Inr a \<and> a \<in> upb_arenas w2
     \<and> (\<forall>q. PyUpb_Arena_Get w2 q = Inr a \<longrightarrow> q = p)
     \<and> count_list (freed w2) a = count_list (freed w) a
     \<and> (\<exists>w3. PyUpb_Arena_Dealloc w2 p = Inr w3 \<and> a \<notin> upb_arenas w3
           \<and> count_list (freed w3) a = count_list (freed w) a + 1
           \<and> (\<forall>q. PyUpb_Arena_Get w3 q \<noteq> Inr a))"
proof -
  note N = Arena_New_effect [OF assms(3)]
  from N have ret: "ret = p" and o1: "arena_objs w1 p = Some a" and f1: "freed w1 = freed w"
    by simp_all
  from assms(2) have fresh: "a \<notin> upb_arenas w" by simp
  have "exec w (Arena_New p a) = Inr w1" using assms(3) by simp
  from exec_inv [OF assms(1,2) this] have inv1: "world_inv w1" .
  from run_keeps [OF assms(4) inv1 o1 assms(5)] f1 have
    inv2: "world_inv w2" and o2: "arena_objs w2 p = Some a"
    and f2: "count_list (freed w2) a = count_list (freed w) a"
    by simp_all
  from inv2 o2 have live: "a \<in> upb_arenas w2"
    and excl: "\<forall>q. arena_objs w2 q = Some a \<longrightarrow> q = p"
    unfolding world_inv_def by blast+
  from excl have excl': "\<forall>q. PyUpb_Arena_Get w2 q = Inr a \<longrightarrow> q = p"
    by (auto simp: PyUpb_Arena_Get_def split: option.splits)
  define w3 where "w3 = PyUpb_Dealloc p (upb_arena_free a w2)"
  from o2 have d: "PyUpb_Arena_Dealloc w2 p = Inr w3"
    by (simp add: PyUpb_Arena_Dealloc_def PyUpb_Arena_Get_def w3_def)
  from Arena_Dealloc_effect [OF d] o2 have
    e3: "arena_objs w3 = (arena_objs w2)(p := None)" "upb_arenas w3 = upb_arenas w2 - {a}"
      "freed w3 = a # freed w2"
    by auto
  from e3 excl have "\<forall>q. PyUpb_Arena_Get w3 q \<noteq> Inr a"
    by (auto simp: PyUpb_Arena_Get_def split: option.splits)
  with d e3 f2 have "\<exists>w3. PyUpb_Arena_Dealloc w2 p = Inr w3 \<and> a \<notin> upb_arenas w3
           \<and> count_list (freed w3) a = count_list (freed w) a + 1
           \<and> (\<forall>q. PyUpb_Arena_Get w3 q \<noteq> Inr a)"
    by auto
  with ret fresh o2 live excl' f2 show ?thesis
    by (simp add: PyUpb_Arena_Get_def)
qed

theorem arena_owned_and_freed_once_witness:
  "world_inv world1 \<and> call_ok world1 (Arena_New 0xA000 0xB000)
   \<and> (\<exists>w1 w2 w3. PyUpb_Arena_New world1 0xA000 0xB000 = Inr (0xA000, w1)
        \<and> run w1 [Arena_New 0xA100 0xB100, Arena_Dealloc 0xA100, Module_Dealloc 0x7000] = Some w2
        \<and> PyUpb_Arena_Get w2 0xA000 = Inr 0xB000 \<and> 0xB000 \<in> upb_arenas w2
        \<and> count_list (freed w2) 0xB000 = 0
        \<and> PyUpb_Arena_Dealloc w2 0xA000 = Inr w3 \<and> 0xB000 \<notin> upb_arenas w3
        \<and> count_list (freed w3) 0xB000 = 1)"
proof -
  have ok: "call_ok world1 (Arena_New 0xA000 0xB000)"
    by (simp add: fresh_object_def world1_def world0_def)
  define w1 where "w1 = world1\<lparr>ob_refcnt := (ob_refcnt world1)(0xA000 := 1),
    arena_objs := [0xA000 \<mapsto> 0xB000], upb_arenas := {0xB000, 0x8000}\<rparr>"
  have n: "PyUpb_Arena_New world1 0xA000 0xB000 = Inr (0xA000, w1)"
    by (simp add: PyUpb_Arena_New_def world1_def world0_def state_defs Let_def w1_def
        PyType_GenericAlloc_def upb_arena_new_def)
  have "\<exists>w2. run w1 [Arena_New 0xA100 0xB100, Arena_Dealloc 0xA100, Module_Dealloc 0x7000] = Some w2"
    by (simp add: w1_def world1_def world0_def fresh_object_def PyUpb_Arena_New_def
        state_defs Let_def PyType_GenericAlloc_def upb_arena_new_def PyUpb_Arena_Dealloc_def
        PyUpb_Arena_Get_def PyUpb_Dealloc_def upb_arena_free_def module_dealloc_def
        PyUpb_ModuleDealloc_def)
  then obtain w2 where
    r: "run w1 [Arena_New 0xA100 0xB100, Arena_Dealloc 0xA100, Module_Dealloc 0x7000] = Some w2" ..
  have "freed world1 = []" by (simp add: world1_def world0_def)
  with arena_owned_and_freed_once [OF world_inv_world1 ok n r] world_inv_world1 ok n r
  show ?thesis by auto
qed

text \<open>
  Claim C8, a failed module load. When no module is attached yet and a registration step
  fails (one of the three registration functions of the other files, or the creation or
  the entry of the arena class), \<open>PyInit__message\<close> returns \<open>NULL\<close>, and yet the
  module is still attached to the interpreter with one reference, its storage arena is
  still allocated, \<open>upb_arena_free\<close> has not been called, and \<open>PyUpb_ModuleState_Get\<close>
  succeeds and yields the initialised empty cache.
\<close>

theorem PyInit__message_failure_keeps_state:
  assumes "modules_by_index w = None" and "\<not> (c1 \<and> c2 \<and> c3 \<and> type \<noteq> NULL \<and> rc = 0)"
  shows "\<exists>w'. PyInit__message w m a c1 c2 c3 type rc = Inr (NULL, w')
     \<and> modules_by_index w' = Some m \<and> ob_refcnt w' m = 1
     \<and> a \<in> upb_arenas w' \<and> freed w' = freed w
     \<and> (\<exists>s. PyUpb_ModuleState_Get w' = Inr (m, s) \<and> obj_cache s = [] \<and> obj_cache_arena s = a)"
  using assms
  by (auto simp: PyInit__message_def PyState_AddModule_def PyModule_Create_def Py_INCREF_def
      Py_DECREF_def PyUpb_ModuleState_Get_def PyUpb_ModuleState_GetFromModule_def
      PyState_FindModule_def PyModule_GetState_def upb_arena_new_def upb_inttable_init_def
      set_state_def PyUpb_InitArena_def PyUpb_AddClass_def PyUpb_GetClassName_def
      PyUpb_Arena_Spec_name_def Let_def zero_state_def)

theorem PyInit__message_failure_keeps_state_witness:
  "modules_by_index world0 = None
   \<and> (\<exists>w'. PyInit__message world0 0x7000 0x8000 False True True 0x9000 0 = Inr (NULL, w')
     \<and> modules_by_index w' = Some 0x7000 \<and> ob_refcnt w' 0x7000 = 1
     \<and> 0x8000 \<in> upb_arenas w' \<and> freed w' = []
     \<and> (\<exists>s. PyUpb_ModuleState_Get w' = Inr (0x7000, s) \<and> obj_cache s = []
          \<and> obj_cache_arena s = 0x8000))"
proof -
  have "modules_by_index world0 = None" "freed world0 = []" by (simp_all add: world0_def)
  with PyInit__message_failure_keeps_state
    [of world0 False True True "0x9000" 0 "0x7000" "0x8000"]
  show ?thesis by simp
qed

text \<open>
  Claim C9, the forbidden constructor. For a class whose name is a live string object
  and for all arguments, \<open>PyUpb_Forbidden_New\<close> returns \<open>NULL\<close> and the state differs
  from the one before in the pending exception only: a \<open>RuntimeError\<close> whose message
  contains the name of the class. No object is created, and the module state, the cache,
  the arenas and all reference counts are as before.
\<close>

theorem PyUpb_Forbidden_New_raises:
  assumes "ht_name w cls = Some n" and "n \<noteq> NULL" and "0 < ob_refcnt w n"
  shows "PyUpb_Forbidden_New w cls args kwds =
     Inr (NULL, w\<lparr>err_indicator := Some (PyExc_RuntimeError,
        ''Objects of type '' @ unicode w n @ '' may not be created directly.'')\<rparr>)"
proof -
  have "(ob_refcnt w)(n := ob_refcnt w n) = ob_refcnt w" by (rule fun_upd_triv)
  with assms show ?thesis
    unfolding PyUpb_Forbidden_New_def PyObject_GetAttrString_name_def PyErr_Format_def
      Py_XDECREF_def Py_DECREF_def Py_INCREF_def subst_U_message
    by (simp add: Let_def)
qed

theorem PyUpb_Forbidden_New_raises_witness:
  "ht_name world3 0x9000 = Some 0x9100
   \<and> PyUpb_Forbidden_New world3 0x9000 0 0 =
       Inr (NULL, world3\<lparr>err_indicator := Some (PyExc_RuntimeError,
          ''Objects of type Arena may not be created directly.'')\<rparr>)"
proof -
  have h: "ht_name world3 0x9000 = Some 0x9100" "(0x9100 :: ptr) \<noteq> NULL"
    "0 < ob_refcnt world3 0x9100" "unicode world3 0x9100 = ''Arena''"
    by (simp_all add: world3_def world1_def world0_def)
  from PyUpb_Forbidden_New_raises [OF h(1,2,3), of 0 0] h(1,4) show ?thesis by simp
qed

text \<open>
  Claim C10, \<open>PyUpb_ObjCache_Get\<close> is read only on the cache. Whenever the call returns,
  the table of the attached module, the module states and the attachment are as before;
  on a miss the whole state is as before, and on a hit the only change is the reference
  count of the returned wrapper.
\<close>

theorem PyUpb_ObjCache_Get_frame:
  assumes "PyUpb_ObjCache_Get w key = Inr (ret, w')"
  shows "\<exists>t. cache_of w = Some t \<and> cache_of w' = Some t
     \<and> md_state w' = md_state w \<and> modules_by_index w' = modules_by_index w
     \<and> (case upb_inttable_lookup t key of
          None \<Rightarrow> ret = NULL \<and> w' = w
        | Some ob \<Rightarrow> ret = ob \<and> w' = w\<lparr>ob_refcnt := (ob_refcnt w)(ob := ob_refcnt w ob + 1)\<rparr>)"
proof -
  from cache_of_Get [OF assms] obtain t where t: "cache_of w = Some t" "cache_of w' = Some t"
    by auto
  from assms Get_cache_of [OF t(1), of key] have
    "(case map_of t key of
          None \<Rightarrow> ret = NULL \<and> w' = w
        | Some ob \<Rightarrow> ret = ob \<and> w' = Py_INCREF ob w)"
    by (auto split: option.splits)
  then have "md_state w' = md_state w \<and> modules_by_index w' = modules_by_index w
     \<and> (case upb_inttable_lookup t key of
          None \<Rightarrow> ret = NULL \<and> w' = w
        | Some ob \<Rightarrow> ret = ob \<and> w' = w\<lparr>ob_refcnt := (ob_refcnt w)(ob := ob_refcnt w ob + 1)\<rparr>)"
    by (auto simp: upb_inttable_lookup_def Py_INCREF_def split: option.splits)
  with t show ?thesis by blast
qed

theorem PyUpb_ObjCache_Get_frame_witness:
  "PyUpb_ObjCache_Get world2 0x1000 =
     Inr (0x2000, world2\<lparr>ob_refcnt := (ob_refcnt world2)(0x2000 := 2)\<rparr>)
   \<and> cache_of (world2\<lparr>ob_refcnt := (ob_refcnt world2)(0x2000 := 2)\<rparr>) = cache_of world2
   \<and> md_state (world2\<lparr>ob_refcnt := (ob_refcnt world2)(0x2000 := 2)\<rparr>) = md_state world2"
proof -
  have g: "PyUpb_ObjCache_Get world2 0x1000 =
     Inr (0x2000, world2\<lparr>ob_refcnt := (ob_refcnt world2)(0x2000 := 2)\<rparr>)"
    by (simp add: Get_cache_of cache_of_world2 Py_INCREF_def) (simp add: world2_def world1_def world0_def)
  from PyUpb_ObjCache_Get_frame [OF g] g show ?thesis by auto
qed

end
